theory Spec2Isabelle
  imports Main "HOL-Library.Sublist" "HOL-Library.Word"
begin

section \<open>Python values used by app.py\<close>

text \<open>
  A Python \<open>str\<close> is modelled as a HOL \<open>string\<close>, one \<open>char\<close> per code point, so the
  model covers the strings whose code points are below 256. On these, \<open>str.isspace\<close>,
  \<open>str.strip\<close> and \<open>str.lower\<close> are the functions below.
\<close>

definition isspace :: "char \<Rightarrow> bool" where
  "isspace c = (let n = (of_char c :: nat) in
     (9 \<le> n \<and> n \<le> 13) \<or> (28 \<le> n \<and> n \<le> 32) \<or> n = 133 \<or> n = 160)"

definition strip :: "string \<Rightarrow> string" where
  "strip s = rev (dropWhile isspace (rev (dropWhile isspace s)))"

definition lower_char :: "char \<Rightarrow> char" where
  "lower_char c = (let n = (of_char c :: nat) in
     if (65 \<le> n \<and> n \<le> 90) \<or> (192 \<le> n \<and> n \<le> 222 \<and> n \<noteq> 215)
     then char_of (n + 32) else c)"

definition lower :: "string \<Rightarrow> string" where
  "lower s = map lower_char s"

text \<open>\<open>needle in hay\<close> on two strings: \<open>needle\<close> occurs as a contiguous part of \<open>hay\<close>.\<close>

fun starts_with :: "string \<Rightarrow> string \<Rightarrow> bool" where
  "starts_with [] hay = True"
| "starts_with (n # ns) [] = False"
| "starts_with (n # ns) (h # hs) = (n = h \<and> starts_with ns hs)"

fun str_in :: "string \<Rightarrow> string \<Rightarrow> bool" where
  "str_in needle [] = (needle = [])"
| "str_in needle (h # hs) = (starts_with needle (h # hs) \<or> str_in needle hs)"

text \<open>
  The values \<open>json.loads\<close> produces. A float is finite (mantissa and binary exponent),
  infinite or NaN; Python's \<open>json\<close> accepts \<open>Infinity\<close> and \<open>NaN\<close>. An object keeps the
  members in the order of the JSON text; of two members with one key the later one
  is the value of the key, as in the \<open>dict\<close> that \<open>json.loads\<close> builds.
\<close>

datatype pyfloat = Finite int int | PosInf | NegInf | NaN

datatype json =
    JNull
  | JBool bool
  | JInt int
  | JFloat pyfloat
  | JStr string
  | JArr "json list"
  | JObj "(string \<times> json) list"

fun float_truthy :: "pyfloat \<Rightarrow> bool" where
  "float_truthy (Finite m e) = (m \<noteq> 0)"
| "float_truthy PosInf = True"
| "float_truthy NegInf = True"
| "float_truthy NaN = True"

text \<open>Python's truth value of a parsed JSON value (\<open>not data\<close> is its negation).\<close>

fun truthy :: "json \<Rightarrow> bool" where
  "truthy JNull = False"
| "truthy (JBool b) = b"
| "truthy (JInt i) = (i \<noteq> 0)"
| "truthy (JFloat f) = float_truthy f"
| "truthy (JStr s) = (s \<noteq> [])"
| "truthy (JArr xs) = (xs \<noteq> [])"
| "truthy (JObj ms) = (ms \<noteq> [])"

text \<open>The exceptions that can be raised inside the \<open>try\<close> block of \<open>send_email\<close>.\<close>

datatype exn = BadRequest | AttributeError | KeyError

text \<open>\<open>d.get(k)\<close> on a dict: \<open>None\<close> stands for Python's \<open>None\<close> of an absent key.\<close>

definition dict_get :: "(string \<times> json) list \<Rightarrow> string \<Rightarrow> json option" where
  "dict_get ms k = map_of (rev ms) k"

text \<open>\<open>data.get(field)\<close>: only a dict has the method.\<close>

fun data_get :: "json \<Rightarrow> string \<Rightarrow> exn + json option" where
  "data_get (JObj ms) k = Inr (dict_get ms k)"
| "data_get v k = Inl AttributeError"

text \<open>\<open>data[field]\<close>: \<open>KeyError\<close> when the key is absent.\<close>

fun data_item :: "json \<Rightarrow> string \<Rightarrow> exn + json" where
  "data_item (JObj ms) k = (case dict_get ms k of None \<Rightarrow> Inl KeyError | Some v \<Rightarrow> Inr v)"
| "data_item v k = Inl AttributeError"

text \<open>\<open>v.strip()\<close> on a value: only a \<open>str\<close> has the method.\<close>

fun value_strip :: "json \<Rightarrow> exn + string" where
  "value_strip (JStr s) = Inr (strip s)"
| "value_strip v = Inl AttributeError"

section \<open>Configuration\<close>

text \<open>
  The module-level constants of app.py, which \<open>decouple.config\<close> reads from the environment
  when the module is loaded. They do not change while the process runs.
\<close>

record config =
  GMAIL_EMAIL :: string
  GMAIL_APP_PASSWORD :: string
  SMTP_SERVER :: string
  SMTP_PORT :: int

text \<open>
  \<open>decouple.config(name, default=d)\<close> without a cast: the text of the setting where the
  environment defines it (\<open>os.environ\<close>, or else the \<open>.env\<close> file), the default otherwise.
\<close>

definition setting :: "(string \<rightharpoonup> string) \<Rightarrow> string \<Rightarrow> string \<Rightarrow> string" where
  "setting env name dflt = (case env name of None \<Rightarrow> dflt | Some v \<Rightarrow> v)"

text \<open>
  The four assignments at the top of app.py. \<open>py_int\<close> stands for Python's \<open>int\<close> on the
  text of \<open>SMTP_PORT\<close> (\<open>cast=int\<close>); a text that is no integer stops the import of the
  module.
\<close>

definition load_config :: "(string \<rightharpoonup> string) \<Rightarrow> (string \<Rightarrow> int) \<Rightarrow> config" where
  "load_config env py_int =
     \<lparr>GMAIL_EMAIL = setting env ''GMAIL_EMAIL'' ''hadibadami14@gmail.com'',
      GMAIL_APP_PASSWORD = setting env ''GMAIL_APP_PASSWORD'' [],
      SMTP_SERVER = setting env ''SMTP_SERVER'' ''smtp.gmail.com'',
      SMTP_PORT = (case env ''SMTP_PORT'' of None \<Rightarrow> 587 | Some v \<Rightarrow> py_int v)\<rparr>"

definition config_missing_msg :: string where
  "config_missing_msg =
     ''Email configuration missing. Please set GMAIL_EMAIL and GMAIL_APP_PASSWORD environment variables.''"

definition validate_email_config :: "config \<Rightarrow> bool \<times> string" where
  "validate_email_config cfg =
     (if GMAIL_EMAIL cfg = [] \<or> GMAIL_APP_PASSWORD cfg = []
      then (False, config_missing_msg)
      else (True, ''OK''))"

section \<open>The mail relay client\<close>

text \<open>
  The exception classes of \<open>smtplib\<close>. \<open>SMTPException\<close> is the base class;
  \<open>SMTPResponseException\<close> is the base of the sender, data, connect, helo and
  authentication errors.
\<close>

datatype smtp_class =
    SMTPException
  | SMTPNotSupportedError
  | SMTPServerDisconnected
  | SMTPResponseException
  | SMTPSenderRefused
  | SMTPDataError
  | SMTPConnectError
  | SMTPHeloError
  | SMTPAuthenticationError
  | SMTPRecipientsRefused

text \<open>
  What the \<open>try\<close> block of \<open>send_email_smtp\<close> can raise, with the text \<open>str(e)\<close>:
  an instance of one of the \<open>smtplib\<close> classes, or any other \<open>Exception\<close>.
\<close>

datatype raised = Smtp smtp_class string | Other string

text \<open>
  \<open>uuid.uuid4()\<close> returns a UUID, a 128-bit integer; \<open>str\<close> of it is the integer as 32
  lower-case hexadecimal digits (\<open>'%032x'\<close>) in groups of 8, 4, 4, 4 and 12.
\<close>

definition hexdigit :: "nat \<Rightarrow> char" where
  "hexdigit n = ''0123456789abcdef'' ! n"

fun hex_digits :: "nat \<Rightarrow> nat \<Rightarrow> string" where
  "hex_digits 0 n = []"
| "hex_digits (Suc k) n = hex_digits k (n div 16) @ [hexdigit (n mod 16)]"

definition uuid_str :: "128 word \<Rightarrow> string" where
  "uuid_str u =
     (let h = hex_digits 32 (unat u) in
      take 8 h @ ''-'' @ take 4 (drop 8 h) @ ''-'' @ take 4 (drop 12 h) @ ''-''
        @ take 4 (drop 16 h) @ ''-'' @ drop 20 h)"

text \<open>
  What one request meets outside the program: whether the SMTP session raises
  (\<open>None\<close>: it runs to the end), the UUID that \<open>uuid.uuid4()\<close> draws, and the text of
  \<open>datetime.utcnow().isoformat()\<close>.
\<close>

record world =
  smtp_raises :: "raised option"
  uuid4 :: "128 word"
  utcnow :: string

text \<open>The triple that \<open>send_email_smtp\<close> returns; \<open>None\<close> is Python's \<open>None\<close>.\<close>

record send_result =
  success :: bool
  message :: string
  email_id :: "string option"

text \<open>The \<open>except\<close> clauses of \<open>send_email_smtp\<close>, in the order of the source.\<close>

fun on_exception :: "raised \<Rightarrow> send_result" where
  "on_exception (Smtp SMTPAuthenticationError e) =
     \<lparr>success = False,
      message = ''SMTP Authentication failed. Check your Gmail credentials: '' @ e,
      email_id = None\<rparr>"
| "on_exception (Smtp SMTPRecipientsRefused e) =
     \<lparr>success = False, message = ''Invalid recipient email address: '' @ e, email_id = None\<rparr>"
| "on_exception (Smtp SMTPServerDisconnected e) =
     \<lparr>success = False, message = ''SMTP server connection lost: '' @ e, email_id = None\<rparr>"
| "on_exception (Smtp c e) =
     \<lparr>success = False, message = ''SMTP error occurred: '' @ e, email_id = None\<rparr>"
| "on_exception (Other e) =
     \<lparr>success = False, message = ''Unexpected error: '' @ e, email_id = None\<rparr>"

definition send_email_smtp :: "config \<Rightarrow> world \<Rightarrow> string \<Rightarrow> string \<Rightarrow> string \<Rightarrow> send_result" where
  "send_email_smtp cfg w receiver_email subject body_text =
     (case smtp_raises w of
        None \<Rightarrow>
          \<lparr>success = True, message = ''Email sent successfully'',
           email_id = Some (uuid_str (uuid4 w))\<rparr>
      | Some e \<Rightarrow> on_exception e)"

text \<open>The five failure categories of the relay and the exceptions that fall in each.\<close>

datatype category = AuthFailure | RecipientRejected | ConnectionLost | TransportError | Unexpected

fun category_of :: "raised \<Rightarrow> category" where
  "category_of (Smtp c e) =
     (if c = SMTPAuthenticationError then AuthFailure
      else if c = SMTPRecipientsRefused then RecipientRejected
      else if c = SMTPServerDisconnected then ConnectionLost
      else TransportError)"
| "category_of (Other e) = Unexpected"

fun str_of :: "raised \<Rightarrow> string" where
  "str_of (Smtp c e) = e"
| "str_of (Other e) = e"

fun category_prefix :: "category \<Rightarrow> string" where
  "category_prefix AuthFailure = ''SMTP Authentication failed. Check your Gmail credentials: ''"
| "category_prefix RecipientRejected = ''Invalid recipient email address: ''"
| "category_prefix ConnectionLost = ''SMTP server connection lost: ''"
| "category_prefix TransportError = ''SMTP error occurred: ''"
| "category_prefix Unexpected = ''Unexpected error: ''"

section \<open>Responses\<close>

text \<open>A response is the status code and the dict given to \<open>jsonify\<close>.\<close>

record response =
  status :: nat
  body :: "(string \<times> json) list"

definition home :: "config \<Rightarrow> world \<Rightarrow> response" where
  "home cfg w =
     (let (config_valid, config_msg) = validate_email_config cfg in
      \<lparr>status = 200,
       body = [(''service'', JStr ''Email Sending API''),
               (''version'', JStr ''1.0.0''),
               (''status'', JStr ''running''),
               (''email_config_valid'', JBool config_valid),
               (''timestamp'', JStr (utcnow w))]\<rparr>)"

section \<open>The request handler\<close>

text \<open>
  What \<open>send_email\<close> reads of the request: \<open>request.is_json\<close>, and the value that
  \<open>request.get_json()\<close> parses from the body, \<open>None\<close> when the body is not a JSON
  document. In that case \<open>get_json\<close> raises werkzeug's \<open>BadRequest\<close>, which is an
  \<open>Exception\<close>.
\<close>

record request =
  is_json :: bool
  json_body :: "json option"

definition get_json :: "request \<Rightarrow> exn + json" where
  "get_json req = (case json_body req of None \<Rightarrow> Inl BadRequest | Some data \<Rightarrow> Inr data)"

definition required_fields :: "string list" where
  "required_fields = [''receiver_email'', ''subject'', ''body_text'']"

text \<open>The loop condition \<open>not data.get(field) or not data.get(field).strip()\<close>.\<close>

definition field_missing :: "json \<Rightarrow> string \<Rightarrow> exn + bool" where
  "field_missing data field =
     (case data_get data field of
        Inl e \<Rightarrow> Inl e
      | Inr None \<Rightarrow> Inr True
      | Inr (Some v) \<Rightarrow>
          if \<not> truthy v then Inr True
          else (case value_strip v of Inl e \<Rightarrow> Inl e | Inr s \<Rightarrow> Inr (s = [])))"

text \<open>The loop over \<open>required_fields\<close> that appends to \<open>missing_fields\<close>.\<close>

fun collect_missing :: "json \<Rightarrow> string list \<Rightarrow> string list \<Rightarrow> exn + string list" where
  "collect_missing data [] missing = Inr missing"
| "collect_missing data (field # rest) missing =
     (case field_missing data field of
        Inl e \<Rightarrow> Inl e
      | Inr m \<Rightarrow> collect_missing data rest (if m then missing @ [field] else missing))"

text \<open>\<open>data[field].strip()\<close>.\<close>

definition item_strip :: "json \<Rightarrow> string \<Rightarrow> exn + string" where
  "item_strip data field =
     (case data_item data field of Inl e \<Rightarrow> Inl e | Inr v \<Rightarrow> value_strip v)"

text \<open>
  The handler's run is recorded as the list of the checks it performed, in order, and
  of its call of \<open>send_email_smtp\<close> with the arguments of the call.
\<close>

datatype step =
    ConfigCheck
  | ContentTypeCheck
  | BodyCheck
  | FieldCheck
  | FormatCheck
  | Relay string string string

definition logged :: "step \<Rightarrow> step list \<times> 'a \<Rightarrow> step list \<times> 'a" where
  "logged e r = (e # fst r, snd r)"

text \<open>\<open>jsonify\<close> of an optional string: \<open>None\<close> becomes \<open>null\<close>.\<close>

definition json_of_opt :: "string option \<Rightarrow> json" where
  "json_of_opt x = (case x of None \<Rightarrow> JNull | Some s \<Rightarrow> JStr s)"

text \<open>The response to the relay's result (the \<open>if success: ... else: ...\<close> of \<open>send_email\<close>).\<close>

definition outcome_response :: "config \<Rightarrow> world \<Rightarrow> string \<Rightarrow> string \<Rightarrow> send_result \<Rightarrow> response" where
  "outcome_response cfg w receiver_email subject res =
     (if success res then
        \<lparr>status = 200,
         body = [(''status'', JStr ''success''),
                 (''message'', JStr (message res)),
                 (''email_id'', json_of_opt (email_id res)),
                 (''sent_to'', JStr receiver_email),
                 (''sent_from'', JStr (GMAIL_EMAIL cfg)),
                 (''subject'', JStr subject),
                 (''timestamp'', JStr (utcnow w))]\<rparr>
      else if str_in ''Authentication'' (message res) then
        \<lparr>status = 401,
         body = [(''error'', JStr ''Authentication failed''), (''message'', JStr (message res))]\<rparr>
      else if str_in ''recipient'' (lower (message res)) then
        \<lparr>status = 400,
         body = [(''error'', JStr ''Invalid recipient''), (''message'', JStr (message res))]\<rparr>
      else
        \<lparr>status = 502,
         body = [(''error'', JStr ''Email sending failed''), (''message'', JStr (message res))]\<rparr>)"

text \<open>The \<open>try\<close> block of \<open>send_email\<close>: the steps performed, and the response or the exception.\<close>

definition send_email_try :: "config \<Rightarrow> world \<Rightarrow> request \<Rightarrow> step list \<times> (exn + response)" where
  "send_email_try cfg w req =
     (let (config_valid, config_msg) = validate_email_config cfg in
      logged ConfigCheck
       (if \<not> config_valid then
          ([], Inr \<lparr>status = 500,
                    body = [(''error'', JStr ''Server configuration error''),
                            (''message'', JStr config_msg)]\<rparr>)
        else logged ContentTypeCheck
         (if \<not> is_json req then
            ([], Inr \<lparr>status = 400,
                      body = [(''error'', JStr ''Content-Type must be application/json'')]\<rparr>)
          else logged BodyCheck
           (case get_json req of
              Inl e \<Rightarrow> ([], Inl e)
            | Inr data \<Rightarrow>
                if \<not> truthy data then
                  ([], Inr \<lparr>status = 400,
                            body = [(''error'', JStr ''Request body is required'')]\<rparr>)
                else logged FieldCheck
                 (case collect_missing data required_fields [] of
                    Inl e \<Rightarrow> ([], Inl e)
                  | Inr missing_fields \<Rightarrow>
                      if missing_fields \<noteq> [] then
                        ([], Inr \<lparr>status = 400,
                                  body = [(''error'', JStr ''Missing required fields''),
                                          (''missing_fields'', JArr (map JStr missing_fields)),
                                          (''required_fields'', JArr (map JStr required_fields))]\<rparr>)
                      else
                        (case item_strip data ''receiver_email'' of
                           Inl e \<Rightarrow> ([], Inl e)
                         | Inr receiver_email \<Rightarrow>
                        (case item_strip data ''subject'' of
                           Inl e \<Rightarrow> ([], Inl e)
                         | Inr subject \<Rightarrow>
                        (case item_strip data ''body_text'' of
                           Inl e \<Rightarrow> ([], Inl e)
                         | Inr body_text \<Rightarrow>
                             logged FormatCheck
                              (if \<not> str_in ''@'' receiver_email \<or> \<not> str_in ''.'' receiver_email then
                                 ([], Inr \<lparr>status = 400,
                                           body = [(''error'', JStr ''Invalid email format''),
                                                   (''message'', JStr ''Please provide a valid email address'')]\<rparr>)
                               else logged (Relay receiver_email subject body_text)
                                 ([], Inr (outcome_response cfg w receiver_email subject
                                             (send_email_smtp cfg w receiver_email subject body_text))))))))))))"

text \<open>The \<open>except Exception\<close> clause of \<open>send_email\<close>.\<close>

definition internal_error :: response where
  "internal_error =
     \<lparr>status = 500,
      body = [(''error'', JStr ''Internal server error''),
              (''message'', JStr ''An unexpected error occurred while processing your request'')]\<rparr>"

definition send_email :: "config \<Rightarrow> world \<Rightarrow> request \<Rightarrow> response" where
  "send_email cfg w req =
     (case snd (send_email_try cfg w req) of Inl e \<Rightarrow> internal_error | Inr r \<Rightarrow> r)"

definition send_email_steps :: "config \<Rightarrow> world \<Rightarrow> request \<Rightarrow> step list" where
  "send_email_steps cfg w req = fst (send_email_try cfg w req)"

section \<open>Notions of the specification\<close>

text \<open>The credentials are present: neither the sender address nor the app password is empty.\<close>

definition config_ok :: "config \<Rightarrow> bool" where
  "config_ok cfg \<longleftrightarrow> GMAIL_EMAIL cfg \<noteq> [] \<and> GMAIL_APP_PASSWORD cfg \<noteq> []"

fun is_str :: "json \<Rightarrow> bool" where
  "is_str (JStr s) = True"
| "is_str v = False"

text \<open>A field of the body violates the handler's type assumption: it holds a truthy value
  that is not a string.\<close>

definition ill_typed :: "(string \<times> json) list \<Rightarrow> string \<Rightarrow> bool" where
  "ill_typed ms field =
     (case dict_get ms field of None \<Rightarrow> False | Some v \<Rightarrow> truthy v \<and> \<not> is_str v)"

text \<open>A field is absent or blank: the key is absent, or its value is a string of whitespace
  only (the empty string among them), or a falsy value that is not a string (\<open>null\<close>,
  \<open>false\<close>, zero, an empty array or object).\<close>

definition blank :: "(string \<times> json) list \<Rightarrow> string \<Rightarrow> bool" where
  "blank ms field =
     (case dict_get ms field of
        None \<Rightarrow> True
      | Some (JStr s) \<Rightarrow> list_all isspace s
      | Some v \<Rightarrow> \<not> truthy v)"

text \<open>The trimmed text of a field that holds a string with something besides whitespace.\<close>

fun field_text :: "json \<Rightarrow> string \<Rightarrow> string option" where
  "field_text (JObj ms) field =
     (case dict_get ms field of
        Some (JStr raw) \<Rightarrow> if strip raw = [] then None else Some (strip raw)
      | _ \<Rightarrow> None)"
| "field_text v field = None"

text \<open>A request passes the checks up to and including the required-field check, with
  trimmed receiver \<open>r\<close>, subject \<open>s\<close> and body text \<open>b\<close>.\<close>

definition passes_required :: "config \<Rightarrow> request \<Rightarrow> string \<Rightarrow> string \<Rightarrow> string \<Rightarrow> bool" where
  "passes_required cfg req r s b \<longleftrightarrow>
     config_ok cfg \<and> is_json req \<and>
     (case json_body req of
        None \<Rightarrow> False
      | Some data \<Rightarrow>
          field_text data ''receiver_email'' = Some r \<and>
          field_text data ''subject'' = Some s \<and>
          field_text data ''body_text'' = Some b)"

definition format_ok :: "string \<Rightarrow> bool" where
  "format_ok r \<longleftrightarrow> CHR ''@'' \<in> set r \<and> CHR ''.'' \<in> set r"

text \<open>The full validation chain followed by the relay call.\<close>

definition all_steps :: "string \<Rightarrow> string \<Rightarrow> string \<Rightarrow> step list" where
  "all_steps r s b =
     [ConfigCheck, ContentTypeCheck, BodyCheck, FieldCheck, FormatCheck, Relay r s b]"

text \<open>
  \<open>u\<close> is an upper-case letter (A to Z, or one of the accented capitals from code point
  192 to 222, the multiplication sign 215 apart) and \<open>l\<close> is its lower-case form, 32 code
  points above.
\<close>

definition upper_of :: "char \<Rightarrow> char \<Rightarrow> bool" where
  "upper_of u l \<longleftrightarrow>
     (let n = (of_char u :: nat) in
      ((65 \<le> n \<and> n \<le> 90) \<or> (192 \<le> n \<and> n \<le> 222 \<and> n \<noteq> 215))
      \<and> (of_char l :: nat) = n + 32)"

text \<open>Two characters are the same when the case of letters is ignored.\<close>

definition same_letter :: "char \<Rightarrow> char \<Rightarrow> bool" where
  "same_letter a b \<longleftrightarrow> a = b \<or> upper_of a b \<or> upper_of b a"

text \<open>\<open>hay\<close> contains \<open>needle\<close> when the case of letters is ignored: a contiguous part
  of \<open>hay\<close> agrees with \<open>needle\<close> character by character up to case.\<close>

definition contains_ci :: "string \<Rightarrow> string \<Rightarrow> bool" where
  "contains_ci needle hay \<longleftrightarrow>
     (\<exists>ps mid ss. hay = ps @ mid @ ss \<and> list_all2 same_letter mid needle)"

text \<open>A configuration with credentials, a world and request bodies for the examples.\<close>

definition demo_config :: config where
  "demo_config =
     \<lparr>GMAIL_EMAIL = ''sender@example.com'', GMAIL_APP_PASSWORD = ''secret'',
      SMTP_SERVER = ''smtp.gmail.com'', SMTP_PORT = 587\<rparr>"

definition demo_world :: world where
  "demo_world =
     \<lparr>smtp_raises = None, uuid4 = 0x123e4567e89b42d3a456426614174000,
      utcnow = ''2024-01-01T00:00:00''\<rparr>"

definition demo_fields :: "(string \<times> json) list" where
  "demo_fields =
     [(''receiver_email'', JStr '' user@example.com ''),
      (''subject'', JStr ''Hello''),
      (''body_text'', JStr ''Hi there'')]"

definition demo_request :: request where
  "demo_request = \<lparr>is_json = True, json_body = Some (JObj demo_fields)\<rparr>"

section \<open>Strings\<close>

lemma starts_with_prefix: "starts_with n h \<longleftrightarrow> prefix n h"
  by (induction n h rule: starts_with.induct) simp_all

lemma str_in_sublist: "str_in n h \<longleftrightarrow> sublist n h"
  by (induction h) (simp_all add: starts_with_prefix sublist_Cons_right)

lemma str_in_char: "str_in [c] s \<longleftrightarrow> c \<in> set s"
  by (induction s) auto

lemma strip_Nil_iff: "strip s = [] \<longleftrightarrow> list_all isspace s"
proof
  assume "strip s = []"
  then have a: "dropWhile isspace (rev (dropWhile isspace s)) = []"
    by (simp add: strip_def)
  show "list_all isspace s"
  proof (cases "dropWhile isspace s")
    case Nil
    then show ?thesis by (simp add: list_all_iff)
  next
    case (Cons x xs)
    then have "\<not> isspace (hd (dropWhile isspace s))"
      by (metis hd_dropWhile list.distinct(1))
    moreover from a have "\<forall>c\<in>set (dropWhile isspace s). isspace c"
      by simp
    ultimately show ?thesis using Cons by simp
  qed
next
  assume "list_all isspace s"
  then have "dropWhile isspace s = []"
    by (simp add: list_all_iff)
  then show "strip s = []"
    by (simp only: strip_def rev.simps dropWhile.simps)
qed

section \<open>The text of a UUID\<close>

lemma hex_digits_numeral:
  "hex_digits (numeral k) n = hex_digits (pred_numeral k) (n div 16) @ [hexdigit (n mod 16)]"
  by (simp only: numeral_eq_Suc[of k] hex_digits.simps)









section \<open>The required-field loop\<close>

lemma field_missing_obj:
  "field_missing (JObj ms) f = (if ill_typed ms f then Inl AttributeError else Inr (blank ms f))"
proof (cases "dict_get ms f")
  case None
  then show ?thesis by (simp add: field_missing_def ill_typed_def blank_def)
next
  case (Some v)
  then show ?thesis
    by (cases v) (simp_all add: field_missing_def ill_typed_def blank_def strip_Nil_iff)
qed

lemma collect_missing_obj:
  "collect_missing (JObj ms) fs acc =
     (if \<exists>f\<in>set fs. ill_typed ms f then Inl AttributeError
      else Inr (acc @ filter (blank ms) fs))"
  by (induction fs arbitrary: acc) (simp_all add: field_missing_obj)

lemma collect_missing_non_obj:
  "\<forall>ms. data \<noteq> JObj ms \<Longrightarrow> fs \<noteq> [] \<Longrightarrow> collect_missing data fs acc = Inl AttributeError"
  by (cases fs; cases data) (simp_all add: field_missing_def)

lemma field_text_SomeD:
  "field_text data f = Some t \<Longrightarrow>
   \<exists>ms raw. data = JObj ms \<and> dict_get ms f = Some (JStr raw) \<and> strip raw = t \<and> t \<noteq> []"
  by (cases data) (auto split: option.splits json.splits if_splits)

lemma field_text_facts:
  assumes "field_text data f = Some t"
  shows "truthy data" and "item_strip data f = Inr t"
    and "\<exists>ms. data = JObj ms \<and> \<not> ill_typed ms f \<and> \<not> blank ms f"
proof -
  from field_text_SomeD[OF assms] obtain ms raw where
    d: "data = JObj ms" "dict_get ms f = Some (JStr raw)" "strip raw = t" "t \<noteq> []"
    by blast
  from d(2) have "ms \<noteq> []" by (auto simp: dict_get_def)
  with d(1) show "truthy data" by simp
  from d show "item_strip data f = Inr t" by (simp add: item_strip_def)
  from d show "\<exists>ms. data = JObj ms \<and> \<not> ill_typed ms f \<and> \<not> blank ms f"
    by (auto simp: ill_typed_def blank_def strip_Nil_iff[symmetric])
qed

lemma not_blank_text:
  "\<not> blank ms f \<Longrightarrow> \<not> ill_typed ms f \<Longrightarrow> \<exists>t. field_text (JObj ms) f = Some t"
proof (cases "dict_get ms f")
  case None
  assume "\<not> blank ms f"
  with None show ?thesis by (simp add: blank_def)
next
  case (Some v)
  assume "\<not> blank ms f" "\<not> ill_typed ms f"
  with Some show ?thesis
    by (cases v) (simp_all add: blank_def ill_typed_def strip_Nil_iff)
qed

section \<open>The stages of the handler\<close>

lemma validate_config_ok:
  "validate_email_config cfg = (if config_ok cfg then (True, ''OK'') else (False, config_missing_msg))"
  by (simp add: validate_email_config_def config_ok_def)

lemma try_config_invalid:
  "\<not> config_ok cfg \<Longrightarrow>
   send_email_try cfg w req =
     ([ConfigCheck], Inr \<lparr>status = 500,
        body = [(''error'', JStr ''Server configuration error''), (''message'', JStr config_missing_msg)]\<rparr>)"
  by (simp add: send_email_try_def validate_config_ok logged_def)

lemma try_not_json:
  "config_ok cfg \<Longrightarrow> \<not> is_json req \<Longrightarrow>
   send_email_try cfg w req =
     ([ConfigCheck, ContentTypeCheck],
      Inr \<lparr>status = 400, body = [(''error'', JStr ''Content-Type must be application/json'')]\<rparr>)"
  by (simp add: send_email_try_def validate_config_ok logged_def)

lemma try_unparseable:
  "config_ok cfg \<Longrightarrow> is_json req \<Longrightarrow> json_body req = None \<Longrightarrow>
   send_email_try cfg w req = ([ConfigCheck, ContentTypeCheck, BodyCheck], Inl BadRequest)"
  by (simp add: send_email_try_def validate_config_ok logged_def get_json_def)

lemma try_falsy:
  "config_ok cfg \<Longrightarrow> is_json req \<Longrightarrow> json_body req = Some data \<Longrightarrow> \<not> truthy data \<Longrightarrow>
   send_email_try cfg w req =
     ([ConfigCheck, ContentTypeCheck, BodyCheck],
      Inr \<lparr>status = 400, body = [(''error'', JStr ''Request body is required'')]\<rparr>)"
  by (simp add: send_email_try_def validate_config_ok logged_def get_json_def)

lemma try_fields_raise:
  "config_ok cfg \<Longrightarrow> is_json req \<Longrightarrow> json_body req = Some data \<Longrightarrow> truthy data \<Longrightarrow>
   collect_missing data required_fields [] = Inl e \<Longrightarrow>
   send_email_try cfg w req = ([ConfigCheck, ContentTypeCheck, BodyCheck, FieldCheck], Inl e)"
  by (simp add: send_email_try_def validate_config_ok logged_def get_json_def)

lemma try_missing:
  "config_ok cfg \<Longrightarrow> is_json req \<Longrightarrow> json_body req = Some data \<Longrightarrow> truthy data \<Longrightarrow>
   collect_missing data required_fields [] = Inr m \<Longrightarrow> m \<noteq> [] \<Longrightarrow>
   send_email_try cfg w req =
     ([ConfigCheck, ContentTypeCheck, BodyCheck, FieldCheck],
      Inr \<lparr>status = 400,
           body = [(''error'', JStr ''Missing required fields''),
                   (''missing_fields'', JArr (map JStr m)),
                   (''required_fields'', JArr (map JStr required_fields))]\<rparr>)"
  by (simp add: send_email_try_def validate_config_ok logged_def get_json_def)

lemma try_passed:
  assumes "passes_required cfg req r s b"
  shows "send_email_try cfg w req =
     (if format_ok r then
        (all_steps r s b, Inr (outcome_response cfg w r s (send_email_smtp cfg w r s b)))
      else
        ([ConfigCheck, ContentTypeCheck, BodyCheck, FieldCheck, FormatCheck],
         Inr \<lparr>status = 400,
              body = [(''error'', JStr ''Invalid email format''),
                      (''message'', JStr ''Please provide a valid email address'')]\<rparr>))"
proof -
  from assms obtain data where
    c: "config_ok cfg" "is_json req" "json_body req = Some data"
    and f: "field_text data ''receiver_email'' = Some r"
           "field_text data ''subject'' = Some s"
           "field_text data ''body_text'' = Some b"
    by (auto simp: passes_required_def split: option.splits)
  from field_text_facts(3)[OF f(1)] field_text_facts(3)[OF f(2)] field_text_facts(3)[OF f(3)]
  have cm: "collect_missing data required_fields [] = Inr []"
    by (auto simp: collect_missing_obj required_fields_def simp del: collect_missing.simps)
  note t = field_text_facts(1)[OF f(1)]
  note i = field_text_facts(2)[OF f(1)] field_text_facts(2)[OF f(2)] field_text_facts(2)[OF f(3)]
  show ?thesis
    using c t cm i
    by (simp add: send_email_try_def validate_config_ok logged_def get_json_def
        str_in_char format_ok_def all_steps_def)
qed

lemma collect_Nil_passes:
  assumes "config_ok cfg" "is_json req" "json_body req = Some data"
    and "collect_missing data required_fields [] = Inr []"
  shows "\<exists>r s b. passes_required cfg req r s b"
proof -
  have "\<exists>ms. data = JObj ms"
  proof (rule ccontr)
    assume "\<not> (\<exists>ms. data = JObj ms)"
    then have "collect_missing data required_fields [] = Inl AttributeError"
      by (intro collect_missing_non_obj) (simp_all add: required_fields_def)
    with assms(4) show False by simp
  qed
  then obtain ms where d: "data = JObj ms" ..
  from assms(4) d have
    n: "\<forall>f\<in>set required_fields. \<not> ill_typed ms f" and
    e: "filter (blank ms) required_fields = []"
    by (auto simp: collect_missing_obj split: if_splits simp del: collect_missing.simps)
  from e have nb: "\<forall>f\<in>set required_fields. \<not> blank ms f"
    by (simp add: filter_empty_conv)
  from n nb obtain r where r: "field_text (JObj ms) ''receiver_email'' = Some r"
    using not_blank_text[of ms "''receiver_email''"] by (auto simp: required_fields_def)
  from n nb obtain s where s: "field_text (JObj ms) ''subject'' = Some s"
    using not_blank_text[of ms "''subject''"] by (auto simp: required_fields_def)
  from n nb obtain b where b: "field_text (JObj ms) ''body_text'' = Some b"
    using not_blank_text[of ms "''body_text''"] by (auto simp: required_fields_def)
  from assms(1-3) d r s b have "passes_required cfg req r s b"
    by (simp add: passes_required_def)
  then show ?thesis by blast
qed

text \<open>Every run of the handler is one of seven.\<close>

lemma try_cases:
  "(\<not> config_ok cfg \<and> send_email_steps cfg w req = [ConfigCheck])
   \<or> (config_ok cfg \<and> \<not> is_json req \<and> send_email_steps cfg w req = [ConfigCheck, ContentTypeCheck])
   \<or> (config_ok cfg \<and> is_json req
        \<and> send_email_steps cfg w req = [ConfigCheck, ContentTypeCheck, BodyCheck])
   \<or> (config_ok cfg \<and> is_json req
        \<and> send_email_steps cfg w req = [ConfigCheck, ContentTypeCheck, BodyCheck, FieldCheck])
   \<or> (\<exists>r s b. passes_required cfg req r s b \<and> \<not> format_ok r
        \<and> send_email_steps cfg w req =
            [ConfigCheck, ContentTypeCheck, BodyCheck, FieldCheck, FormatCheck])
   \<or> (\<exists>r s b. passes_required cfg req r s b \<and> format_ok r
        \<and> send_email_steps cfg w req = all_steps r s b)"
proof (cases "config_ok cfg")
  case False
  then show ?thesis by (simp add: send_email_steps_def try_config_invalid)
next
  case c: True
  show ?thesis
  proof (cases "is_json req")
    case False
    with c show ?thesis by (simp add: send_email_steps_def try_not_json)
  next
    case j: True
    show ?thesis
    proof (cases "json_body req")
      case None
      with c j show ?thesis by (simp add: send_email_steps_def try_unparseable)
    next
      case (Some data)
      show ?thesis
      proof (cases "truthy data")
        case False
        with c j Some show ?thesis by (simp add: send_email_steps_def try_falsy)
      next
        case t: True
        show ?thesis
        proof (cases "collect_missing data required_fields []")
          case (Inl e)
          with c j Some t show ?thesis by (simp add: send_email_steps_def try_fields_raise)
        next
          case (Inr m)
          show ?thesis
          proof (cases "m = []")
            case False
            with c j Some t Inr show ?thesis by (simp add: send_email_steps_def try_missing)
          next
            case True
            with Inr collect_Nil_passes[OF c j Some] obtain r s b
              where p: "passes_required cfg req r s b" by blast
            show ?thesis
            proof (cases "format_ok r")
              case True
              with p have "send_email_steps cfg w req = all_steps r s b"
                by (simp add: send_email_steps_def try_passed)
              with p True show ?thesis by blast
            next
              case False
              with p have "send_email_steps cfg w req =
                  [ConfigCheck, ContentTypeCheck, BodyCheck, FieldCheck, FormatCheck]"
                by (simp add: send_email_steps_def try_passed)
              with p False show ?thesis by blast
            qed
          qed
        qed
      qed
    qed
  qed
qed

lemma relay_called_only_when_valid:
  assumes "Relay r s b \<in> set (send_email_steps cfg w req)"
  shows "passes_required cfg req r s b \<and> format_ok r"
  using try_cases[of cfg w req] assms
  by (auto simp: all_steps_def)

section \<open>Outcomes of the relay client\<close>

lemma category_prefix_clash:
  "c \<noteq> c' \<Longrightarrow> \<not> prefix (category_prefix c) (category_prefix c' @ d)"
  by (cases c; cases c') simp_all

lemma on_exception_shape:
  "on_exception e =
     \<lparr>success = False, message = category_prefix (category_of e) @ str_of e, email_id = None\<rparr>"
  by (cases e rule: on_exception.cases) simp_all

text \<open>
  C8: when the SMTP session raises, in any of the five categories (authentication failure,
  recipient rejected, connection lost, other transport error, unexpected error), the relay
  client returns \<open>success = False\<close>, no identifier, and a message that is the category's
  own prefix followed by the text of the exception. No category's prefix begins a message
  of another category, so the category can be read off the message. The identifier is
  present exactly on success, and success is exactly a session that did not raise.
\<close>

theorem relay_failure_outcomes:
  "(smtp_raises w = Some e \<longrightarrow>
      send_email_smtp cfg w r s b =
        \<lparr>success = False, message = category_prefix (category_of e) @ str_of e,
         email_id = None\<rparr>)
   \<and> (c \<noteq> c' \<longrightarrow> \<not> prefix (category_prefix c) (category_prefix c' @ d))
   \<and> (email_id (send_email_smtp cfg w r s b) \<noteq> None
        \<longleftrightarrow> success (send_email_smtp cfg w r s b))
   \<and> (success (send_email_smtp cfg w r s b) \<longleftrightarrow> smtp_raises w = None)"
proof -
  have a: "smtp_raises w = Some e \<longrightarrow>
      send_email_smtp cfg w r s b =
        \<lparr>success = False, message = category_prefix (category_of e) @ str_of e,
         email_id = None\<rparr>"
    by (simp add: send_email_smtp_def on_exception_shape)
  have b: "c \<noteq> c' \<longrightarrow> \<not> prefix (category_prefix c) (category_prefix c' @ d)"
    by (simp add: category_prefix_clash)
  have c: "email_id (send_email_smtp cfg w r s b) \<noteq> None
        \<longleftrightarrow> success (send_email_smtp cfg w r s b)"
    by (cases "smtp_raises w") (simp_all add: send_email_smtp_def on_exception_shape)
  have d: "success (send_email_smtp cfg w r s b) \<longleftrightarrow> smtp_raises w = None"
    by (cases "smtp_raises w") (simp_all add: send_email_smtp_def on_exception_shape)
  from a b c d show ?thesis by blast
qed

theorem relay_failure_outcomes_witness:
  "send_email_smtp demo_config (demo_world\<lparr>smtp_raises := Some (Smtp SMTPServerDisconnected ''closed'')\<rparr>)
      ''user@example.com'' ''Hello'' ''Hi there''
     = \<lparr>success = False, message = ''SMTP server connection lost: closed'', email_id = None\<rparr>
   \<and> \<not> prefix (category_prefix TransportError) (category_prefix ConnectionLost @ ''closed'')"
  using relay_failure_outcomes[of
      "demo_world\<lparr>smtp_raises := Some (Smtp SMTPServerDisconnected ''closed'')\<rparr>"
      "Smtp SMTPServerDisconnected ''closed''" demo_config
      "''user@example.com''" "''Hello''" "''Hi there''" TransportError ConnectionLost "''closed''"]
  by simp

section \<open>The response to the relay's outcome\<close>

lemma lower_append: "lower (xs @ ys) = lower xs @ lower ys"
  by (simp add: lower_def)

lemma of_char_lower_char:
  "(of_char (lower_char c) :: nat) =
     (let n = of_char c in
      if (65 \<le> n \<and> n \<le> 90) \<or> (192 \<le> n \<and> n \<le> 222 \<and> n \<noteq> 215) then n + 32 else n)"
  by (auto simp: lower_char_def Let_def)

lemma same_letter_lower: "same_letter a b \<longleftrightarrow> lower_char a = lower_char b"
proof -
  have "lower_char a = lower_char b
      \<longleftrightarrow> (of_char (lower_char a) :: nat) = of_char (lower_char b)"
    by simp
  also have "\<dots> \<longleftrightarrow> same_letter a b"
    unfolding of_char_lower_char same_letter_def upper_of_def Let_def
    using of_char_eq_iff[of a b, where ?'a = nat]
    by (auto split: if_splits)
  finally show ?thesis by simp
qed

lemma lower_eq_all2: "lower xs = lower ys \<longleftrightarrow> list_all2 same_letter xs ys"
proof (induction xs arbitrary: ys)
  case Nil
  then show ?case by (simp add: lower_def)
next
  case (Cons x xs)
  then show ?case
    by (cases ys) (simp_all add: lower_def same_letter_lower)
qed

lemma contains_ci_code: "contains_ci needle hay \<longleftrightarrow> str_in (lower needle) (lower hay)"
proof
  assume "contains_ci needle hay"
  then obtain ps mid ss where "hay = ps @ mid @ ss" "lower mid = lower needle"
    by (auto simp: contains_ci_def lower_eq_all2)
  then have "lower hay = lower ps @ lower needle @ lower ss"
    by (simp add: lower_append)
  then show "str_in (lower needle) (lower hay)"
    by (simp add: str_in_sublist)
next
  assume "str_in (lower needle) (lower hay)"
  then obtain ps' ss' where e: "map lower_char hay = ps' @ lower needle @ ss'"
    by (auto simp: str_in_sublist sublist_def lower_def)
  then obtain ps rest where r: "hay = ps @ rest" "lower needle @ ss' = map lower_char rest"
    unfolding map_eq_append_conv by blast
  then obtain mid ss where m: "rest = mid @ ss" "lower needle = map lower_char mid"
    unfolding append_eq_map_conv by blast
  from r(1) m have "hay = ps @ mid @ ss \<and> lower mid = lower needle"
    by (simp add: lower_def)
  then show "contains_ci needle hay"
    unfolding contains_ci_def lower_eq_all2[symmetric] by blast
qed

lemma relay_called_response:
  assumes "Relay r s b \<in> set (send_email_steps cfg w req)"
  shows "send_email cfg w req = outcome_response cfg w r s (send_email_smtp cfg w r s b)"
proof -
  from relay_called_only_when_valid[OF assms]
  have "passes_required cfg req r s b" "format_ok r" by simp_all
  then show ?thesis
    by (simp add: send_email_def try_passed)
qed

lemma demo_passes:
  "passes_required demo_config demo_request ''user@example.com'' ''Hello'' ''Hi there''"
  by (simp add: passes_required_def demo_config_def demo_request_def demo_fields_def
      config_ok_def dict_get_def strip_def isspace_def)

lemma demo_steps:
  "send_email_steps demo_config w demo_request
     = all_steps ''user@example.com'' ''Hello'' ''Hi there''"
  using try_passed[OF demo_passes, of w]
  by (simp add: send_email_steps_def format_ok_def)

text \<open>
  C1: when the handler has called the relay and the relay reports failure, the status is
  chosen by the failure message: 401 with error "Authentication failed" if the message
  contains "Authentication"; otherwise 400 with error "Invalid recipient" if it contains
  "recipient" with the case of letters ignored; otherwise 502 with error "Email sending
  failed". The body carries the relay's message in every case.
\<close>

theorem relay_failure_status:
  assumes "Relay r s b \<in> set (send_email_steps cfg w req)"
    and "\<not> success (send_email_smtp cfg w r s b)"
  shows "send_email cfg w req =
     (let m = message (send_email_smtp cfg w r s b) in
      if sublist ''Authentication'' m then
        \<lparr>status = 401,
         body = [(''error'', JStr ''Authentication failed''), (''message'', JStr m)]\<rparr>
      else if contains_ci ''recipient'' m then
        \<lparr>status = 400,
         body = [(''error'', JStr ''Invalid recipient''), (''message'', JStr m)]\<rparr>
      else
        \<lparr>status = 502,
         body = [(''error'', JStr ''Email sending failed''), (''message'', JStr m)]\<rparr>)"
proof -
  have l: "lower ''recipient'' = ''recipient''"
    by (simp add: lower_def lower_char_def)
  from assms(2) show ?thesis
    by (simp add: relay_called_response[OF assms(1)] outcome_response_def Let_def
        str_in_sublist[symmetric] contains_ci_code l)
qed

theorem relay_failure_status_witness:
  "send_email demo_config
      (demo_world\<lparr>smtp_raises := Some (Other ''RECIPIENT mailbox full'')\<rparr>)
      demo_request
     = \<lparr>status = 400,
        body = [(''error'', JStr ''Invalid recipient''),
                (''message'', JStr ''Unexpected error: RECIPIENT mailbox full'')]\<rparr>"
proof -
  let ?w = "demo_world\<lparr>smtp_raises := Some (Other ''RECIPIENT mailbox full'')\<rparr>"
  have h1: "Relay ''user@example.com'' ''Hello'' ''Hi there''
              \<in> set (send_email_steps demo_config ?w demo_request)"
    by (simp add: demo_steps all_steps_def)
  have h2: "\<not> success (send_email_smtp demo_config ?w ''user@example.com'' ''Hello'' ''Hi there'')"
    by (simp add: send_email_smtp_def)
  have m: "message (send_email_smtp demo_config ?w ''user@example.com'' ''Hello'' ''Hi there'')
      = ''Unexpected error: RECIPIENT mailbox full''"
    by (simp add: send_email_smtp_def)
  have a: "\<not> sublist ''Authentication'' ''Unexpected error: RECIPIENT mailbox full''"
    by (simp add: str_in_sublist[symmetric])
  have "''Unexpected error: RECIPIENT mailbox full''
      = ''Unexpected error: '' @ ''RECIPIENT'' @ '' mailbox full''"
    by simp
  moreover have "list_all2 same_letter ''RECIPIENT'' ''recipient''"
    by (simp add: same_letter_def upper_of_def)
  ultimately have c: "contains_ci ''recipient'' ''Unexpected error: RECIPIENT mailbox full''"
    unfolding contains_ci_def by blast
  from relay_failure_status[OF h1 h2] show ?thesis
    by (simp only: m Let_def a c if_True if_False)
qed

text \<open>
  C7: when the handler has called the relay and the relay reports success, the response
  is 200 and its body has exactly the keys status (= "success"), message, email_id,
  sent_to (the trimmed receiver_email), sent_from (the configured sender address),
  subject (the trimmed subject) and timestamp (the text of the UTC clock at the call).
\<close>

theorem success_response:
  assumes "Relay r s b \<in> set (send_email_steps cfg w req)"
    and "success (send_email_smtp cfg w r s b)"
  shows "send_email cfg w req =
       \<lparr>status = 200,
        body = [(''status'', JStr ''success''),
                (''message'', JStr ''Email sent successfully''),
                (''email_id'', JStr (uuid_str (uuid4 w))),
                (''sent_to'', JStr r),
                (''sent_from'', JStr (GMAIL_EMAIL cfg)),
                (''subject'', JStr s),
                (''timestamp'', JStr (utcnow w))]\<rparr>
     \<and> map fst (body (send_email cfg w req)) =
         [''status'', ''message'', ''email_id'', ''sent_to'', ''sent_from'', ''subject'',
          ''timestamp'']
     \<and> passes_required cfg req r s b"
proof -
  from assms(2) have n: "smtp_raises w = None"
    by (cases "smtp_raises w") (simp_all add: send_email_smtp_def on_exception_shape)
  from relay_called_only_when_valid[OF assms(1)] have p: "passes_required cfg req r s b"
    by simp
  from n p show ?thesis
    by (simp add: relay_called_response[OF assms(1)] outcome_response_def send_email_smtp_def
        json_of_opt_def)
qed

theorem success_response_witness:
  "send_email demo_config demo_world demo_request =
       \<lparr>status = 200,
        body = [(''status'', JStr ''success''),
                (''message'', JStr ''Email sent successfully''),
                (''email_id'', JStr ''123e4567-e89b-42d3-a456-426614174000''),
                (''sent_to'', JStr ''user@example.com''),
                (''sent_from'', JStr ''sender@example.com''),
                (''subject'', JStr ''Hello''),
                (''timestamp'', JStr ''2024-01-01T00:00:00'')]\<rparr>"
proof -
  have h1: "Relay ''user@example.com'' ''Hello'' ''Hi there''
              \<in> set (send_email_steps demo_config demo_world demo_request)"
    by (simp add: demo_steps all_steps_def)
  have h2: "success (send_email_smtp demo_config demo_world ''user@example.com'' ''Hello'' ''Hi there'')"
    by (simp add: send_email_smtp_def demo_world_def)
  have u: "uuid_str (uuid4 demo_world) = ''123e4567-e89b-42d3-a456-426614174000''"
    by (simp add: demo_world_def uuid_str_def hex_digits_numeral hexdigit_def)
  from success_response[OF h1 h2] show ?thesis
    by (simp add: u) (simp add: demo_world_def demo_config_def)
qed

section \<open>Bodies that are not JSON\<close>

text \<open>
  C2 says that a POST whose Content-Type declares JSON and whose body is not parseable
  as JSON is answered with 400 and never with 500. In the code \<open>get_json\<close> raises
  \<open>BadRequest\<close> inside the \<open>try\<close> block and the \<open>except Exception\<close> clause answers:
  the status is 500 for every configuration, with error "Internal server error" when
  the credentials are present.
\<close>

theorem malformed_json_gives_500:
  "send_email cfg w \<lparr>is_json = True, json_body = None\<rparr> =
     (if config_ok cfg then internal_error
      else \<lparr>status = 500,
            body = [(''error'', JStr ''Server configuration error''),
                    (''message'', JStr config_missing_msg)]\<rparr>)
   \<and> status (send_email cfg w \<lparr>is_json = True, json_body = None\<rparr>) = 500"
  by (cases "config_ok cfg")
    (simp_all add: send_email_def try_unparseable try_config_invalid internal_error_def)

section \<open>Missing fields\<close>

lemma collect_missing_typed:
  assumes "\<forall>f\<in>set required_fields. \<not> ill_typed ms f"
  shows "collect_missing (JObj ms) required_fields [] = Inr (filter (blank ms) required_fields)"
  using assms by (simp add: collect_missing_obj del: collect_missing.simps)

text \<open>
  C3, amended: for a request that passes the configuration and Content-Type checks and
  whose body is a non-empty JSON object in which no required field holds a truthy value
  that is not a string, if at least one of receiver_email, subject, body_text is absent
  or blank, the response is 400 with error "Missing required fields", \<open>missing_fields\<close>
  lists exactly the absent or blank fields, in the order of the required fields, and
  \<open>required_fields\<close> lists all three.
\<close>

theorem missing_fields_reported:
  assumes "config_ok cfg" and "is_json req" and "json_body req = Some (JObj ms)" and "ms \<noteq> []"
    and "\<forall>f\<in>set required_fields. \<not> ill_typed ms f"
    and "\<exists>f\<in>set required_fields. blank ms f"
  shows "send_email cfg w req =
     \<lparr>status = 400,
      body = [(''error'', JStr ''Missing required fields''),
              (''missing_fields'', JArr (map JStr (filter (blank ms) required_fields))),
              (''required_fields'',
                 JArr [JStr ''receiver_email'', JStr ''subject'', JStr ''body_text''])]\<rparr>"
proof -
  from assms(6) have ne: "filter (blank ms) required_fields \<noteq> []"
    by (simp add: filter_empty_conv)
  from assms(4) have t: "truthy (JObj ms)" by simp
  have "send_email_try cfg w req =
     ([ConfigCheck, ContentTypeCheck, BodyCheck, FieldCheck],
      Inr \<lparr>status = 400,
           body = [(''error'', JStr ''Missing required fields''),
                   (''missing_fields'', JArr (map JStr (filter (blank ms) required_fields))),
                   (''required_fields'', JArr (map JStr required_fields))]\<rparr>)"
    by (rule try_missing[OF assms(1-3) t collect_missing_typed[OF assms(5)] ne])
  then show ?thesis
    by (simp add: send_email_def required_fields_def)
qed

theorem missing_fields_reported_witness:
  "send_email demo_config demo_world
     \<lparr>is_json = True,
      json_body = Some (JObj [(''receiver_email'', JStr ''   ''), (''subject'', JNull),
                              (''body_text'', JStr ''Hi there'')])\<rparr>
   = \<lparr>status = 400,
      body = [(''error'', JStr ''Missing required fields''),
              (''missing_fields'', JArr [JStr ''receiver_email'', JStr ''subject'']),
              (''required_fields'',
                 JArr [JStr ''receiver_email'', JStr ''subject'', JStr ''body_text''])]\<rparr>"
proof -
  let ?ms = "[(''receiver_email'', JStr ''   ''), (''subject'', JNull),
              (''body_text'', JStr ''Hi there'')]"
  have c: "config_ok demo_config" by (simp add: config_ok_def demo_config_def)
  have n: "\<forall>f\<in>set required_fields. \<not> ill_typed ?ms f"
    by (simp add: required_fields_def ill_typed_def dict_get_def)
  have b: "filter (blank ?ms) required_fields = [''receiver_email'', ''subject'']"
    by (simp add: required_fields_def blank_def dict_get_def isspace_def)
  have e: "\<exists>f\<in>set required_fields. blank ?ms f"
    using b by (metis filter_empty_conv list.distinct(1))
  show ?thesis
    using missing_fields_reported[OF c _ _ _ n e, of
        "\<lparr>is_json = True, json_body = Some (JObj ?ms)\<rparr>" demo_world]
    by (simp add: b)
qed

text \<open>
  C3 as stated fails: with a blank receiver_email and the number 5 as subject the
  response is 500, and with the empty object as body, where all three fields are
  absent, the error is "Request body is required".
\<close>

theorem missing_fields_counterexample:
  "blank [(''receiver_email'', JStr ''   ''), (''subject'', JInt 5), (''body_text'', JStr ''Hi there'')]
      ''receiver_email''
   \<and> send_email demo_config demo_world
       \<lparr>is_json = True,
        json_body = Some (JObj [(''receiver_email'', JStr ''   ''), (''subject'', JInt 5),
                                (''body_text'', JStr ''Hi there'')])\<rparr>
     = \<lparr>status = 500,
        body = [(''error'', JStr ''Internal server error''),
                (''message'', JStr ''An unexpected error occurred while processing your request'')]\<rparr>
   \<and> send_email demo_config demo_world \<lparr>is_json = True, json_body = Some (JObj [])\<rparr>
     = \<lparr>status = 400, body = [(''error'', JStr ''Request body is required'')]\<rparr>"
proof -
  let ?ms = "[(''receiver_email'', JStr ''   ''), (''subject'', JInt 5),
              (''body_text'', JStr ''Hi there'')]"
  have c: "config_ok demo_config" by (simp add: config_ok_def demo_config_def)
  have a: "blank ?ms ''receiver_email''"
    by (simp add: blank_def dict_get_def isspace_def)
  have i: "collect_missing (JObj ?ms) required_fields [] = Inl AttributeError"
    by (simp add: collect_missing_obj required_fields_def ill_typed_def dict_get_def
        del: collect_missing.simps)
  have b: "send_email demo_config demo_world \<lparr>is_json = True, json_body = Some (JObj ?ms)\<rparr>
     = \<lparr>status = 500,
        body = [(''error'', JStr ''Internal server error''),
                (''message'', JStr ''An unexpected error occurred while processing your request'')]\<rparr>"
    using try_fields_raise[OF c _ _ _ i, of "\<lparr>is_json = True, json_body = Some (JObj ?ms)\<rparr>" demo_world]
    by (simp add: send_email_def internal_error_def)
  have d: "send_email demo_config demo_world \<lparr>is_json = True, json_body = Some (JObj [])\<rparr>
     = \<lparr>status = 400, body = [(''error'', JStr ''Request body is required'')]\<rparr>"
    using try_falsy[OF c, of "\<lparr>is_json = True, json_body = Some (JObj [])\<rparr>" "JObj []" demo_world]
    by (simp add: send_email_def)
  from a b d show ?thesis by blast
qed

section \<open>Values of the wrong type\<close>

text \<open>
  C5, amended: for a request that passes the configuration and Content-Type checks and
  whose body parses to a truthy JSON value, if the body is not an object, or one of
  receiver_email, subject, body_text holds a truthy value that is not a string (a
  non-zero number, \<open>true\<close>, a non-empty array or object), the response is 500 with
  error "Internal server error".
\<close>

theorem type_violation_gives_500:
  assumes "config_ok cfg" and "is_json req" and "json_body req = Some data" and "truthy data"
    and "(\<forall>ms. data \<noteq> JObj ms) \<or> (\<exists>ms. data = JObj ms \<and> (\<exists>f\<in>set required_fields. ill_typed ms f))"
  shows "send_email cfg w req =
     \<lparr>status = 500,
      body = [(''error'', JStr ''Internal server error''),
              (''message'', JStr ''An unexpected error occurred while processing your request'')]\<rparr>"
proof -
  from assms(5) have "collect_missing data required_fields [] = Inl AttributeError"
  proof
    assume "\<forall>ms. data \<noteq> JObj ms"
    then show ?thesis
      by (intro collect_missing_non_obj) (simp_all add: required_fields_def)
  next
    assume "\<exists>ms. data = JObj ms \<and> (\<exists>f\<in>set required_fields. ill_typed ms f)"
    then show ?thesis
      by (auto simp: collect_missing_obj simp del: collect_missing.simps)
  qed
  from try_fields_raise[OF assms(1-4) this] show ?thesis
    by (simp add: send_email_def internal_error_def)
qed

theorem type_violation_gives_500_witness:
  "send_email demo_config demo_world \<lparr>is_json = True, json_body = Some (JArr [JInt 1])\<rparr>
     = \<lparr>status = 500,
        body = [(''error'', JStr ''Internal server error''),
                (''message'', JStr ''An unexpected error occurred while processing your request'')]\<rparr>
   \<and> send_email demo_config demo_world
       \<lparr>is_json = True,
        json_body = Some (JObj [(''receiver_email'', JStr ''user@example.com''),
                                (''subject'', JInt 5), (''body_text'', JStr ''Hi there'')])\<rparr>
     = \<lparr>status = 500,
        body = [(''error'', JStr ''Internal server error''),
                (''message'', JStr ''An unexpected error occurred while processing your request'')]\<rparr>"
proof -
  let ?ms = "[(''receiver_email'', JStr ''user@example.com''),
              (''subject'', JInt 5), (''body_text'', JStr ''Hi there'')]"
  have c: "config_ok demo_config" by (simp add: config_ok_def demo_config_def)
  have i: "\<exists>f\<in>set required_fields. ill_typed ?ms f"
    by (simp add: required_fields_def ill_typed_def dict_get_def)
  have a: "send_email demo_config demo_world \<lparr>is_json = True, json_body = Some (JArr [JInt 1])\<rparr>
     = \<lparr>status = 500,
        body = [(''error'', JStr ''Internal server error''),
                (''message'', JStr ''An unexpected error occurred while processing your request'')]\<rparr>"
    using type_violation_gives_500[OF c, of
        "\<lparr>is_json = True, json_body = Some (JArr [JInt 1])\<rparr>" "JArr [JInt 1]" demo_world]
    by simp
  have b: "send_email demo_config demo_world \<lparr>is_json = True, json_body = Some (JObj ?ms)\<rparr>
     = \<lparr>status = 500,
        body = [(''error'', JStr ''Internal server error''),
                (''message'', JStr ''An unexpected error occurred while processing your request'')]\<rparr>"
    using type_violation_gives_500[OF c, of
        "\<lparr>is_json = True, json_body = Some (JObj ?ms)\<rparr>" "JObj ?ms" demo_world] i
    by simp
  from a b show ?thesis by blast
qed

text \<open>
  C5 as stated fails for a falsy value that is not a string: with the number 0 as
  receiver_email the field is reported as missing and the response is 400.
\<close>

theorem type_violation_counterexample:
  "send_email demo_config demo_world
     \<lparr>is_json = True,
      json_body = Some (JObj [(''receiver_email'', JInt 0), (''subject'', JStr ''Hello''),
                              (''body_text'', JStr ''Hi there'')])\<rparr>
   = \<lparr>status = 400,
      body = [(''error'', JStr ''Missing required fields''),
              (''missing_fields'', JArr [JStr ''receiver_email'']),
              (''required_fields'',
                 JArr [JStr ''receiver_email'', JStr ''subject'', JStr ''body_text''])]\<rparr>"
proof -
  let ?ms = "[(''receiver_email'', JInt 0), (''subject'', JStr ''Hello''),
              (''body_text'', JStr ''Hi there'')]"
  have c: "config_ok demo_config" by (simp add: config_ok_def demo_config_def)
  have i: "collect_missing (JObj ?ms) required_fields [] = Inr [''receiver_email'']"
    by (simp add: collect_missing_obj required_fields_def ill_typed_def blank_def dict_get_def
        isspace_def del: collect_missing.simps)
  show ?thesis
    using try_missing[OF c _ _ _ i, of "\<lparr>is_json = True, json_body = Some (JObj ?ms)\<rparr>" demo_world]
    by (simp add: send_email_def required_fields_def)
qed

section \<open>The format of the receiver address\<close>

lemma not_an_email_passes:
  assumes "config_ok cfg" and "strip s \<noteq> []" and "strip b \<noteq> []"
  shows "passes_required cfg
     \<lparr>is_json = True,
      json_body = Some (JObj [(''receiver_email'', JStr ''not-an-email''),
                              (''subject'', JStr s), (''body_text'', JStr b)])\<rparr>
     ''not-an-email'' (strip s) (strip b)"
proof -
  have "strip ''not-an-email'' = ''not-an-email''"
    by (simp add: strip_def isspace_def)
  with assms show ?thesis
    by (simp add: passes_required_def dict_get_def)
qed

text \<open>
  C6: for a request that passes the required-field check, if the trimmed receiver_email
  does not contain both "@" and ".", the response is 400 with error "Invalid email
  format" and the message "Please provide a valid email address"; in particular so for
  receiver_email = "not-an-email", whatever the (non-blank) subject and body text.
\<close>

theorem invalid_email_format:
  "(passes_required cfg req r s b \<and> \<not> (CHR ''@'' \<in> set r \<and> CHR ''.'' \<in> set r) \<longrightarrow>
      send_email cfg w req =
        \<lparr>status = 400,
         body = [(''error'', JStr ''Invalid email format''),
                 (''message'', JStr ''Please provide a valid email address'')]\<rparr>)
   \<and> (config_ok cfg \<and> strip s' \<noteq> [] \<and> strip b' \<noteq> [] \<longrightarrow>
      send_email cfg w
        \<lparr>is_json = True,
         json_body = Some (JObj [(''receiver_email'', JStr ''not-an-email''),
                                 (''subject'', JStr s'), (''body_text'', JStr b')])\<rparr> =
        \<lparr>status = 400,
         body = [(''error'', JStr ''Invalid email format''),
                 (''message'', JStr ''Please provide a valid email address'')]\<rparr>)"
proof -
  have a: "passes_required cfg req r s b \<Longrightarrow> \<not> format_ok r \<Longrightarrow>
      send_email cfg w req =
        \<lparr>status = 400,
         body = [(''error'', JStr ''Invalid email format''),
                 (''message'', JStr ''Please provide a valid email address'')]\<rparr>"
    for cfg req r s b
    by (simp add: send_email_def try_passed)
  have n: "\<not> format_ok ''not-an-email''"
    by (simp add: format_ok_def)
  from a[of cfg req r s b] a[OF not_an_email_passes[of cfg s' b'] n]
  show ?thesis
    by (simp add: format_ok_def)
qed

theorem invalid_email_format_witness:
  "send_email demo_config demo_world
     \<lparr>is_json = True,
      json_body = Some (JObj [(''receiver_email'', JStr '' user.example.com ''),
                              (''subject'', JStr ''Hello''), (''body_text'', JStr ''Hi there'')])\<rparr> =
     \<lparr>status = 400,
      body = [(''error'', JStr ''Invalid email format''),
              (''message'', JStr ''Please provide a valid email address'')]\<rparr>
   \<and> send_email demo_config demo_world
     \<lparr>is_json = True,
      json_body = Some (JObj [(''receiver_email'', JStr ''not-an-email''),
                              (''subject'', JStr ''Hello''), (''body_text'', JStr ''Hi there'')])\<rparr> =
     \<lparr>status = 400,
      body = [(''error'', JStr ''Invalid email format''),
              (''message'', JStr ''Please provide a valid email address'')]\<rparr>"
proof -
  let ?req = "\<lparr>is_json = True,
      json_body = Some (JObj [(''receiver_email'', JStr '' user.example.com ''),
                              (''subject'', JStr ''Hello''), (''body_text'', JStr ''Hi there'')])\<rparr>"
  have c: "config_ok demo_config" by (simp add: config_ok_def demo_config_def)
  have p: "passes_required demo_config ?req ''user.example.com'' ''Hello'' ''Hi there''"
    by (simp add: passes_required_def c dict_get_def strip_def isspace_def)
  have s: "strip ''Hello'' \<noteq> []" "strip ''Hi there'' \<noteq> []"
    by (simp_all add: strip_def isspace_def)
  show ?thesis
    using invalid_email_format[of demo_config ?req "''user.example.com''" "''Hello''"
        "''Hi there''" demo_world "''Hello''" "''Hi there''"] p c s
    by simp
qed

section \<open>The identifier of a sent message\<close>





section \<open>The order of the checks\<close>

lemma collect_missing_raises:
  assumes "(\<forall>ms. data \<noteq> JObj ms)
      \<or> (\<exists>ms. data = JObj ms \<and> (\<exists>f\<in>set required_fields. ill_typed ms f))"
  shows "collect_missing data required_fields [] = Inl AttributeError"
  using assms
proof
  assume "\<forall>ms. data \<noteq> JObj ms"
  then show ?thesis
    by (intro collect_missing_non_obj) (simp_all add: required_fields_def)
next
  assume "\<exists>ms. data = JObj ms \<and> (\<exists>f\<in>set required_fields. ill_typed ms f)"
  then show ?thesis
    by (auto simp: collect_missing_obj simp del: collect_missing.simps)
qed

lemma steps_prefix:
  "\<exists>r s b. prefix (send_email_steps cfg w req) (all_steps r s b)"
proof -
  have p: "prefix [ConfigCheck] (all_steps r s b)"
    "prefix [ConfigCheck, ContentTypeCheck] (all_steps r s b)"
    "prefix [ConfigCheck, ContentTypeCheck, BodyCheck] (all_steps r s b)"
    "prefix [ConfigCheck, ContentTypeCheck, BodyCheck, FieldCheck] (all_steps r s b)"
    "prefix [ConfigCheck, ContentTypeCheck, BodyCheck, FieldCheck, FormatCheck] (all_steps r s b)"
    "prefix (all_steps r s b) (all_steps r s b)"
    for r s b
    by (simp_all add: all_steps_def)
  from try_cases[of cfg w req] show ?thesis
    by (metis p)
qed

lemma relay_called_iff:
  "(\<exists>r s b. Relay r s b \<in> set (send_email_steps cfg w req))
     \<longleftrightarrow> (\<exists>r s b. passes_required cfg req r s b \<and> format_ok r)"
proof
  assume "\<exists>r s b. Relay r s b \<in> set (send_email_steps cfg w req)"
  then show "\<exists>r s b. passes_required cfg req r s b \<and> format_ok r"
    using relay_called_only_when_valid by blast
next
  assume "\<exists>r s b. passes_required cfg req r s b \<and> format_ok r"
  then obtain r s b where "passes_required cfg req r s b" "format_ok r" by blast
  then have "send_email_steps cfg w req = all_steps r s b"
    by (simp add: send_email_steps_def try_passed)
  then have "Relay r s b \<in> set (send_email_steps cfg w req)"
    by (simp add: all_steps_def)
  then show "\<exists>r s b. Relay r s b \<in> set (send_email_steps cfg w req)" by blast
qed

text \<open>
  C4, amended: the handler checks in the fixed order configuration, Content-Type, body,
  required fields, email format, and then calls the relay: every run is a beginning of
  that chain, and a run stops at the first check that fails or raises, so no later
  check is performed and the relay is not called. A failed configuration check answers
  500; a failed Content-Type check 400; a body that parses to a falsy value 400; the
  required-field check answers 400 when a field is absent or blank and no field holds
  a truthy value that is not a string, and 500 when it raises on a truthy body that is
  not an object or on such a field; a failed format check answers 400. The relay is
  called exactly when all five checks pass, with the trimmed values.
\<close>

theorem validation_order_short_circuit:
  "(\<exists>r s b. prefix (send_email_steps cfg w req) (all_steps r s b))
   \<and> (\<not> config_ok cfg \<longrightarrow>
        send_email_steps cfg w req = [ConfigCheck] \<and> status (send_email cfg w req) = 500)
   \<and> (config_ok cfg \<and> \<not> is_json req \<longrightarrow>
        send_email_steps cfg w req = [ConfigCheck, ContentTypeCheck]
        \<and> status (send_email cfg w req) = 400)
   \<and> (config_ok cfg \<and> is_json req \<and> json_body req = Some data \<and> \<not> truthy data \<longrightarrow>
        send_email_steps cfg w req = [ConfigCheck, ContentTypeCheck, BodyCheck]
        \<and> status (send_email cfg w req) = 400)
   \<and> (config_ok cfg \<and> is_json req \<and> json_body req = Some (JObj ms) \<and> ms \<noteq> []
        \<and> (\<forall>f\<in>set required_fields. \<not> ill_typed ms f)
        \<and> (\<exists>f\<in>set required_fields. blank ms f) \<longrightarrow>
        send_email_steps cfg w req = [ConfigCheck, ContentTypeCheck, BodyCheck, FieldCheck]
        \<and> status (send_email cfg w req) = 400)
   \<and> (passes_required cfg req r s b \<and> \<not> format_ok r \<longrightarrow>
        send_email_steps cfg w req =
          [ConfigCheck, ContentTypeCheck, BodyCheck, FieldCheck, FormatCheck]
        \<and> status (send_email cfg w req) = 400)
   \<and> (passes_required cfg req r s b \<and> format_ok r \<longrightarrow>
        send_email_steps cfg w req = all_steps r s b)
   \<and> ((\<exists>r s b. Relay r s b \<in> set (send_email_steps cfg w req))
        \<longleftrightarrow> (\<exists>r s b. passes_required cfg req r s b \<and> format_ok r))
   \<and> (config_ok cfg \<and> is_json req \<and> json_body req = None \<longrightarrow>
        send_email_steps cfg w req = [ConfigCheck, ContentTypeCheck, BodyCheck])
   \<and> (config_ok cfg \<and> is_json req \<and> json_body req = Some data \<and> truthy data
        \<and> ((\<forall>ms. data \<noteq> JObj ms)
            \<or> (\<exists>ms. data = JObj ms \<and> (\<exists>f\<in>set required_fields. ill_typed ms f))) \<longrightarrow>
        send_email_steps cfg w req = [ConfigCheck, ContentTypeCheck, BodyCheck, FieldCheck]
        \<and> status (send_email cfg w req) = 500)"
proof -
  have c1: "\<not> config_ok cfg \<longrightarrow>
        send_email_steps cfg w req = [ConfigCheck] \<and> status (send_email cfg w req) = 500"
    by (simp add: send_email_steps_def send_email_def try_config_invalid)
  have c2: "config_ok cfg \<and> \<not> is_json req \<longrightarrow>
        send_email_steps cfg w req = [ConfigCheck, ContentTypeCheck]
        \<and> status (send_email cfg w req) = 400"
    by (simp add: send_email_steps_def send_email_def try_not_json)
  have c3: "config_ok cfg \<and> is_json req \<and> json_body req = Some data \<and> \<not> truthy data \<longrightarrow>
        send_email_steps cfg w req = [ConfigCheck, ContentTypeCheck, BodyCheck]
        \<and> status (send_email cfg w req) = 400"
    by (simp add: send_email_steps_def send_email_def try_falsy)
  have c4: "config_ok cfg \<and> is_json req \<and> json_body req = Some (JObj ms) \<and> ms \<noteq> []
        \<and> (\<forall>f\<in>set required_fields. \<not> ill_typed ms f)
        \<and> (\<exists>f\<in>set required_fields. blank ms f) \<longrightarrow>
        send_email_steps cfg w req = [ConfigCheck, ContentTypeCheck, BodyCheck, FieldCheck]
        \<and> status (send_email cfg w req) = 400"
  proof
    assume h: "config_ok cfg \<and> is_json req \<and> json_body req = Some (JObj ms) \<and> ms \<noteq> []
        \<and> (\<forall>f\<in>set required_fields. \<not> ill_typed ms f)
        \<and> (\<exists>f\<in>set required_fields. blank ms f)"
    then have t: "truthy (JObj ms)" by simp
    from h have m: "collect_missing (JObj ms) required_fields []
        = Inr (filter (blank ms) required_fields)"
      by (simp add: collect_missing_obj del: collect_missing.simps)
    from h have ne: "filter (blank ms) required_fields \<noteq> []"
      by (simp add: filter_empty_conv)
    from h try_missing[OF _ _ _ t m ne, of cfg req w]
    show "send_email_steps cfg w req = [ConfigCheck, ContentTypeCheck, BodyCheck, FieldCheck]
        \<and> status (send_email cfg w req) = 400"
      by (simp add: send_email_steps_def send_email_def)
  qed
  have c5: "passes_required cfg req r s b \<and> \<not> format_ok r \<longrightarrow>
        send_email_steps cfg w req =
          [ConfigCheck, ContentTypeCheck, BodyCheck, FieldCheck, FormatCheck]
        \<and> status (send_email cfg w req) = 400"
    using try_passed[of cfg req r s b w]
    by (auto simp: send_email_steps_def send_email_def)
  have c6: "passes_required cfg req r s b \<and> format_ok r \<longrightarrow>
        send_email_steps cfg w req = all_steps r s b"
    using try_passed[of cfg req r s b w]
    by (auto simp: send_email_steps_def)
  have c7: "config_ok cfg \<and> is_json req \<and> json_body req = None \<longrightarrow>
        send_email_steps cfg w req = [ConfigCheck, ContentTypeCheck, BodyCheck]"
    by (simp add: send_email_steps_def try_unparseable)
  have c8: "config_ok cfg \<and> is_json req \<and> json_body req = Some data \<and> truthy data
        \<and> ((\<forall>ms. data \<noteq> JObj ms)
            \<or> (\<exists>ms. data = JObj ms \<and> (\<exists>f\<in>set required_fields. ill_typed ms f))) \<longrightarrow>
        send_email_steps cfg w req = [ConfigCheck, ContentTypeCheck, BodyCheck, FieldCheck]
        \<and> status (send_email cfg w req) = 500"
  proof
    assume h: "config_ok cfg \<and> is_json req \<and> json_body req = Some data \<and> truthy data
        \<and> ((\<forall>ms. data \<noteq> JObj ms)
            \<or> (\<exists>ms. data = JObj ms \<and> (\<exists>f\<in>set required_fields. ill_typed ms f)))"
    then have e: "collect_missing data required_fields [] = Inl AttributeError"
      by (rule_tac collect_missing_raises) simp
    from h try_fields_raise[OF _ _ _ _ e, of cfg req w]
    show "send_email_steps cfg w req = [ConfigCheck, ContentTypeCheck, BodyCheck, FieldCheck]
        \<and> status (send_email cfg w req) = 500"
      by (simp add: send_email_steps_def send_email_def internal_error_def)
  qed
  from steps_prefix[of cfg w req] c1 c2 c3 c4 c5 c6 relay_called_iff[of cfg w req] c7 c8
  show ?thesis by blast
qed

theorem validation_order_short_circuit_witness:
  "send_email_steps (demo_config\<lparr>GMAIL_APP_PASSWORD := []\<rparr>) demo_world demo_request
     = [ConfigCheck]
   \<and> send_email_steps demo_config demo_world (demo_request\<lparr>is_json := False\<rparr>)
     = [ConfigCheck, ContentTypeCheck]
   \<and> send_email_steps demo_config demo_world (demo_request\<lparr>json_body := Some (JObj [])\<rparr>)
     = [ConfigCheck, ContentTypeCheck, BodyCheck]
   \<and> send_email_steps demo_config demo_world
       (demo_request\<lparr>json_body := Some (JObj [(''subject'', JStr ''Hello'')])\<rparr>)
     = [ConfigCheck, ContentTypeCheck, BodyCheck, FieldCheck]
   \<and> send_email_steps demo_config demo_world
       (demo_request\<lparr>json_body := Some (JObj [(''receiver_email'', JStr ''not-an-email''),
           (''subject'', JStr ''Hello''), (''body_text'', JStr ''Hi there'')])\<rparr>)
     = [ConfigCheck, ContentTypeCheck, BodyCheck, FieldCheck, FormatCheck]
   \<and> send_email_steps demo_config demo_world demo_request
     = [ConfigCheck, ContentTypeCheck, BodyCheck, FieldCheck, FormatCheck,
        Relay ''user@example.com'' ''Hello'' ''Hi there'']
   \<and> send_email_steps demo_config demo_world (demo_request\<lparr>json_body := None\<rparr>)
     = [ConfigCheck, ContentTypeCheck, BodyCheck]
   \<and> send_email_steps demo_config demo_world
       (demo_request\<lparr>json_body := Some (JArr [JInt 1])\<rparr>)
     = [ConfigCheck, ContentTypeCheck, BodyCheck, FieldCheck]
   \<and> status (send_email demo_config demo_world
       (demo_request\<lparr>json_body := Some (JArr [JInt 1])\<rparr>)) = 500"
proof -
  have c: "config_ok demo_config" by (simp add: config_ok_def demo_config_def)
  have j: "is_json demo_request" by (simp add: demo_request_def)
  have w7: "send_email_steps demo_config demo_world (demo_request\<lparr>json_body := None\<rparr>)
     = [ConfigCheck, ContentTypeCheck, BodyCheck]"
    using validation_order_short_circuit[where cfg = demo_config and w = demo_world
        and req = "demo_request\<lparr>json_body := None\<rparr>"] c j
    by simp
  have w8: "send_email_steps demo_config demo_world
       (demo_request\<lparr>json_body := Some (JArr [JInt 1])\<rparr>)
     = [ConfigCheck, ContentTypeCheck, BodyCheck, FieldCheck]
   \<and> status (send_email demo_config demo_world
       (demo_request\<lparr>json_body := Some (JArr [JInt 1])\<rparr>)) = 500"
    using validation_order_short_circuit[where cfg = demo_config and w = demo_world
        and req = "demo_request\<lparr>json_body := Some (JArr [JInt 1])\<rparr>"
        and data = "JArr [JInt 1]"] c j
    by simp
  have w1: "send_email_steps (demo_config\<lparr>GMAIL_APP_PASSWORD := []\<rparr>) demo_world demo_request
     = [ConfigCheck]"
    using validation_order_short_circuit[where cfg = "demo_config\<lparr>GMAIL_APP_PASSWORD := []\<rparr>"
        and w = demo_world and req = demo_request]
    by (simp add: config_ok_def)
  have w2: "send_email_steps demo_config demo_world (demo_request\<lparr>is_json := False\<rparr>)
     = [ConfigCheck, ContentTypeCheck]"
    using validation_order_short_circuit[where cfg = demo_config and w = demo_world
        and req = "demo_request\<lparr>is_json := False\<rparr>"] c
    by simp
  have w3: "send_email_steps demo_config demo_world (demo_request\<lparr>json_body := Some (JObj [])\<rparr>)
     = [ConfigCheck, ContentTypeCheck, BodyCheck]"
    using validation_order_short_circuit[where cfg = demo_config and w = demo_world
        and req = "demo_request\<lparr>json_body := Some (JObj [])\<rparr>" and data = "JObj []"] c j
    by simp
  have i4: "\<forall>f\<in>set required_fields. \<not> ill_typed [(''subject'', JStr ''Hello'')] f"
    by (simp add: required_fields_def ill_typed_def dict_get_def)
  have b4: "\<exists>f\<in>set required_fields. blank [(''subject'', JStr ''Hello'')] f"
    by (simp add: required_fields_def blank_def dict_get_def)
  have w4: "send_email_steps demo_config demo_world
       (demo_request\<lparr>json_body := Some (JObj [(''subject'', JStr ''Hello'')])\<rparr>)
     = [ConfigCheck, ContentTypeCheck, BodyCheck, FieldCheck]"
    using validation_order_short_circuit[where cfg = demo_config and w = demo_world
        and req = "demo_request\<lparr>json_body := Some (JObj [(''subject'', JStr ''Hello'')])\<rparr>"
        and ms = "[(''subject'', JStr ''Hello'')]"] c j i4 b4
    by simp
  have s: "strip ''Hello'' = ''Hello''" "strip ''Hi there'' = ''Hi there''"
    by (simp_all add: strip_def isspace_def)
  have p5: "passes_required demo_config
       (demo_request\<lparr>json_body := Some (JObj [(''receiver_email'', JStr ''not-an-email''),
           (''subject'', JStr ''Hello''), (''body_text'', JStr ''Hi there'')])\<rparr>)
       ''not-an-email'' ''Hello'' ''Hi there''"
    using not_an_email_passes[OF c, of "''Hello''" "''Hi there''"]
    by (simp add: s demo_request_def)
  have f5: "\<not> format_ok ''not-an-email''" by (simp add: format_ok_def)
  have w5: "send_email_steps demo_config demo_world
       (demo_request\<lparr>json_body := Some (JObj [(''receiver_email'', JStr ''not-an-email''),
           (''subject'', JStr ''Hello''), (''body_text'', JStr ''Hi there'')])\<rparr>)
     = [ConfigCheck, ContentTypeCheck, BodyCheck, FieldCheck, FormatCheck]"
    using validation_order_short_circuit[where cfg = demo_config and w = demo_world
        and req = "demo_request\<lparr>json_body := Some (JObj [(''receiver_email'', JStr ''not-an-email''),
           (''subject'', JStr ''Hello''), (''body_text'', JStr ''Hi there'')])\<rparr>"
        and r = "''not-an-email''" and s = "''Hello''" and b = "''Hi there''"] p5 f5
    by simp
  have f6: "format_ok ''user@example.com''" by (simp add: format_ok_def)
  have w6: "send_email_steps demo_config demo_world demo_request
     = [ConfigCheck, ContentTypeCheck, BodyCheck, FieldCheck, FormatCheck,
        Relay ''user@example.com'' ''Hello'' ''Hi there'']"
    using validation_order_short_circuit[where cfg = demo_config and w = demo_world
        and req = demo_request
        and r = "''user@example.com''" and s = "''Hello''" and b = "''Hi there''"] demo_passes f6
    by (simp add: all_steps_def)
  from w1 w2 w3 w4 w5 w6 w7 w8 show ?thesis by blast
qed

text \<open>
  C4 as stated fails in its "(400)" for the body and required-field checks: a run that
  ends at the required-field check on the body \<open>[1]\<close> answers 500, and so does a run
  that ends at the body check on a body that is not JSON.
\<close>

theorem validation_status_counterexample:
  "send_email_steps demo_config demo_world \<lparr>is_json = True, json_body = Some (JArr [JInt 1])\<rparr>
     = [ConfigCheck, ContentTypeCheck, BodyCheck, FieldCheck]
   \<and> status (send_email demo_config demo_world
               \<lparr>is_json = True, json_body = Some (JArr [JInt 1])\<rparr>) = 500
   \<and> send_email_steps demo_config demo_world \<lparr>is_json = True, json_body = None\<rparr>
     = [ConfigCheck, ContentTypeCheck, BodyCheck]
   \<and> status (send_email demo_config demo_world \<lparr>is_json = True, json_body = None\<rparr>) = 500"
proof -
  have c: "config_ok demo_config" by (simp add: config_ok_def demo_config_def)
  have e: "collect_missing (JArr [JInt 1]) required_fields [] = Inl AttributeError"
    by (rule collect_missing_raises) simp
  have a: "send_email_try demo_config demo_world
             \<lparr>is_json = True, json_body = Some (JArr [JInt 1])\<rparr>
      = ([ConfigCheck, ContentTypeCheck, BodyCheck, FieldCheck], Inl AttributeError)"
    using try_fields_raise[OF c _ _ _ e,
        of "\<lparr>is_json = True, json_body = Some (JArr [JInt 1])\<rparr>" demo_world]
    by simp
  have b: "send_email_try demo_config demo_world \<lparr>is_json = True, json_body = None\<rparr>
      = ([ConfigCheck, ContentTypeCheck, BodyCheck], Inl BadRequest)"
    using try_unparseable[OF c, of "\<lparr>is_json = True, json_body = None\<rparr>" demo_world]
    by simp
  show ?thesis
    by (simp add: send_email_steps_def send_email_def a b internal_error_def)
qed

section \<open>The liveness endpoint\<close>

text \<open>
  C10, amended: for every configuration, GET / answers 200 and the field
  \<open>email_config_valid\<close> of its body is the boolean that the config validator returns. That
  boolean is false exactly when the sender address or the app password, as loaded, is
  empty: when \<open>GMAIL_EMAIL\<close> is set to the empty text, or \<open>GMAIL_APP_PASSWORD\<close> is unset or
  set to the empty text. An unset \<open>GMAIL_EMAIL\<close> is replaced by the built-in default
  address and counts as present.
\<close>

theorem home_reports_loaded_config:
  "status (home cfg w) = 200
   \<and> map_of (body (home cfg w)) ''email_config_valid''
       = Some (JBool (fst (validate_email_config cfg)))
   \<and> (fst (validate_email_config cfg) = False
        \<longleftrightarrow> GMAIL_EMAIL cfg = [] \<or> GMAIL_APP_PASSWORD cfg = [])
   \<and> (fst (validate_email_config (load_config env py_int)) = False
        \<longleftrightarrow> env ''GMAIL_EMAIL'' = Some []
            \<or> env ''GMAIL_APP_PASSWORD'' = None \<or> env ''GMAIL_APP_PASSWORD'' = Some [])"
proof -
  have a: "status (home cfg w) = 200
     \<and> map_of (body (home cfg w)) ''email_config_valid''
         = Some (JBool (fst (validate_email_config cfg)))
     \<and> (fst (validate_email_config cfg) = False
          \<longleftrightarrow> GMAIL_EMAIL cfg = [] \<or> GMAIL_APP_PASSWORD cfg = [])"
    by (simp add: home_def validate_email_config_def)
  have b: "fst (validate_email_config (load_config env py_int)) = False
        \<longleftrightarrow> env ''GMAIL_EMAIL'' = Some []
            \<or> env ''GMAIL_APP_PASSWORD'' = None \<or> env ''GMAIL_APP_PASSWORD'' = Some []"
    by (cases "env ''GMAIL_EMAIL''"; cases "env ''GMAIL_APP_PASSWORD''")
      (simp_all add: validate_email_config_def load_config_def setting_def)
  from a b show ?thesis by blast
qed

text \<open>
  C10 as stated fails for an unset sender address: with \<open>GMAIL_EMAIL\<close> unset and the app
  password set, the validator answers true and GET / reports a valid configuration.
\<close>

theorem unset_sender_counterexample:
  "[''GMAIL_APP_PASSWORD'' \<mapsto> ''secret''] ''GMAIL_EMAIL'' = None
   \<and> fst (validate_email_config
            (load_config [''GMAIL_APP_PASSWORD'' \<mapsto> ''secret''] (\<lambda>v. 587))) = True
   \<and> map_of (body (home (load_config [''GMAIL_APP_PASSWORD'' \<mapsto> ''secret''] (\<lambda>v. 587))
                      demo_world)) ''email_config_valid''
       = Some (JBool True)"
  by (simp add: home_def validate_email_config_def load_config_def setting_def)

end
